theory Spec2Isabelle
  imports Main
begin

section \<open>The research-query front-end (app.py)\<close>

subsection \<open>Data model\<close>

text \<open>
  \<^verbatim>\<open>class ResearchOutput(BaseModel)\<close>: the structured verdict of the guardrail agent,
  an acceptance flag and a free-text rationale.
\<close>

record ResearchOutput =
  is_research :: bool
  reasoning :: string

text \<open>
  \<^verbatim>\<open>GuardrailFunctionOutput(output_info = ..., tripwire_triggered = ...)\<close>, the value a
  guardrail function hands back to the runtime.
\<close>

record GuardrailFunctionOutput =
  output_info :: ResearchOutput
  tripwire_triggered :: bool

text \<open>
  What a run can end with instead of a result. \<open>InputGuardrailTripwireTriggered\<close> is the
  exception the runtime raises when a guardrail function reports its tripwire; it
  carries the guardrail's output. \<open>AttributeError\<close> is what reading \<open>is_research\<close> from a
  final output that is not a \<open>ResearchOutput\<close> raises (\<open>final_output_as\<close> is a cast and
  checks nothing).
\<close>

datatype run_error =
    InputGuardrailTripwireTriggered GuardrailFunctionOutput
  | AttributeError string

text \<open>The final output of a run: plain text, or an instance of the agent's output type.\<close>

datatype run_output = Text string | Structured ResearchOutput

text \<open>
  What the program does that an observer can see, in the order it happens: the busy
  indicator opening and closing (\<^verbatim>\<open>with st.spinner(...)\<close>), \<^verbatim>\<open>time.sleep\<close>,
  a call of \<^verbatim>\<open>Runner.run\<close> (agent name, input), the runtime invoking an agent on
  an input, and \<^verbatim>\<open>st.write\<close>.
\<close>

datatype event =
    Spinner_enter string
  | Sleep nat
  | Spinner_exit
  | Run_called string string
  | Agent_invoked string string
  | Write_out run_output

text \<open>
  The hosted model behind the runtime, as three functions of the agent's name, its
  instructions and the input: the structured answer of an agent with an output type,
  the index of the hand-off target a routing agent picks among the descriptions of its
  candidates, and the text an agent answers with. The program has no handler and no
  conversion for a transport failure of the hosted service, so the model has none
  either: the runtime answers every call.
\<close>

record runtime =
  structured_reply :: "string \<Rightarrow> string \<Rightarrow> string \<Rightarrow> ResearchOutput"
  handoff_choice :: "string \<Rightarrow> string \<Rightarrow> string list \<Rightarrow> string \<Rightarrow> nat"
  text_reply :: "string \<Rightarrow> string \<Rightarrow> string \<Rightarrow> string"

datatype output_type = ResearchOutput_type

text \<open>
  \<^verbatim>\<open>InputGuardrail(guardrail_function = f)\<close>. The source's guardrail function takes
  \<open>(ctx, agent, input_data)\<close>; \<open>ctx.context\<close> is only passed on to the nested run and
  \<open>agent\<close> is not read, so the model keeps the runtime and the input.
\<close>

datatype InputGuardrail =
  InputGuardrail
    (guardrail_function: "runtime \<Rightarrow> string \<Rightarrow> (run_error + GuardrailFunctionOutput) \<times> event list")

text \<open>\<^verbatim>\<open>Agent(name, instructions, handoff_description, output_type, handoffs, input_guardrails)\<close>.\<close>

datatype Agent =
  Agent
    (name: string)
    (handoff_description: "string option")
    (instructions: string)
    (output_type: "output_type option")
    (handoffs: "Agent list")
    (input_guardrails: "InputGuardrail list")

record RunResult =
  final_output :: run_output
  last_agent :: string

subsection \<open>The runtime's \<open>Runner.run\<close>\<close>

text \<open>
  Modelled from the spec: \<open>Runner.run\<close> of the hosted agents SDK, which app.py imports
  and whose code is not among the sources. The model follows the \<open>route\<close> operation of
  the Agent Router (section 4.2) and the runtime boundary (section 6): the guardrail
  functions of the entry agent run first; a reported tripwire aborts the run with the
  guardrail's output; otherwise the runtime asks the routing agent to select one of its
  hand-off targets, invokes that one, and returns its final output. An agent without
  hand-off targets answers itself, with an instance of its output type when it has one.
\<close>

fun run_input_guardrails ::
  "runtime \<Rightarrow> InputGuardrail list \<Rightarrow> string \<Rightarrow> (run_error + unit) \<times> event list" where
  "run_input_guardrails w [] q = (Inr (), [])"
| "run_input_guardrails w (g # gs) q =
     (case guardrail_function g w q of
        (Inl e, t) \<Rightarrow> (Inl e, t)
      | (Inr out, t) \<Rightarrow>
          if tripwire_triggered out then (Inl (InputGuardrailTripwireTriggered out), t)
          else (case run_input_guardrails w gs q of (r, t') \<Rightarrow> (r, t @ t')))"

definition answer :: "runtime \<Rightarrow> Agent \<Rightarrow> string \<Rightarrow> RunResult" where
  "answer w a q =
     \<lparr>final_output =
        (case output_type a of
           None \<Rightarrow> Text (text_reply w (name a) (instructions a) q)
         | Some ResearchOutput_type \<Rightarrow>
             Structured (structured_reply w (name a) (instructions a) q)),
      last_agent = name a\<rparr>"

definition chosen_handoff :: "runtime \<Rightarrow> Agent \<Rightarrow> string \<Rightarrow> Agent" where
  "chosen_handoff w a q =
     handoffs a !
       (handoff_choice w (name a) (instructions a)
          (map (\<lambda>h. case handoff_description h of None \<Rightarrow> [] | Some d \<Rightarrow> d) (handoffs a)) q
        mod length (handoffs a))"

definition run_turns :: "runtime \<Rightarrow> Agent \<Rightarrow> string \<Rightarrow> RunResult \<times> event list" where
  "run_turns w a q =
     (if handoffs a = [] then (answer w a q, [Agent_invoked (name a) q])
      else (answer w (chosen_handoff w a q) q,
            [Agent_invoked (name a) q, Agent_invoked (name (chosen_handoff w a q)) q]))"

definition Runner_run :: "runtime \<Rightarrow> Agent \<Rightarrow> string \<Rightarrow> (run_error + RunResult) \<times> event list" where
  "Runner_run w a q =
     (case run_input_guardrails w (input_guardrails a) q of
        (Inl e, t) \<Rightarrow> (Inl e, Run_called (name a) q # t)
      | (Inr u, t) \<Rightarrow>
          (case run_turns w a q of (r, t') \<Rightarrow> (Inr r, Run_called (name a) q # t @ t')))"

subsection \<open>The agents and the guardrail function of app.py\<close>

definition guardrail_agent :: Agent where
  "guardrail_agent =
     Agent ''Guardrail Check'' None ''Check if the user is asking about research.''
       (Some ResearchOutput_type) [] []"

definition physics_research_agent :: Agent where
  "physics_research_agent =
     Agent ''Physics Researcher'' (Some ''Specialist agent for Physics Research'')
       (''You provide assistance with Physics Research. Explain your reasoning at each step''
          @ CHR 0x0A # ''                    and include examples.'')
       None [] []"

definition financial_research_agent :: Agent where
  "financial_research_agent =
     Agent ''Financial Researcher'' (Some ''Specialist agent for Financial Research'')
       (''You provide assistance with Financial Research. Explain important events and''
          @ CHR 0x0A # ''                    context clearly'')
       None [] []"

text \<open>
  \<^verbatim>\<open>result.final_output_as(ResearchOutput)\<close> followed by the read of \<open>is_research\<close>.
\<close>

definition final_output_as :: "RunResult \<Rightarrow> run_error + ResearchOutput" where
  "final_output_as result =
     (case final_output result of
        Structured v \<Rightarrow> Inr v
      | Text s \<Rightarrow> Inl (AttributeError ''is_research''))"

definition research_guardrail ::
  "runtime \<Rightarrow> string \<Rightarrow> (run_error + GuardrailFunctionOutput) \<times> event list" where
  "research_guardrail w input_data =
     (case Runner_run w guardrail_agent input_data of
        (Inl e, t) \<Rightarrow> (Inl e, t)
      | (Inr result, t) \<Rightarrow>
          (case final_output_as result of
             Inl e \<Rightarrow> (Inl e, t)
           | Inr final \<Rightarrow>
               (Inr \<lparr>output_info = final, tripwire_triggered = (\<not> is_research final)\<rparr>, t)))"

text \<open>
  The verdict the Guardrail Evaluator returns on a query: the structured answer of the
  guardrail agent.
\<close>

definition guardrail_verdict :: "runtime \<Rightarrow> string \<Rightarrow> ResearchOutput" where
  "guardrail_verdict w q =
     structured_reply w (name guardrail_agent) (instructions guardrail_agent) q"

definition triage_agent :: Agent where
  "triage_agent =
     Agent ''Triage Agent'' None
       ''You determine which agent to use based on user's research query.''
       None
       [physics_research_agent, financial_research_agent]
       [InputGuardrail research_guardrail]"

subsection \<open>The script\<close>

text \<open>
  \<open>main\<close>: \<open>user_input\<close> is what the query text input holds and \<open>submit\<close> whether the
  button was pressed on this run. The \<^verbatim>\<open>with st.spinner\<close> block holds the sleep and
  nothing else; the run of the triage agent follows it. An exception of the run leaves
  \<open>main\<close>, which has no handler, before \<^verbatim>\<open>st.write\<close>.
\<close>

definition main :: "runtime \<Rightarrow> string \<Rightarrow> bool \<Rightarrow> (run_error + unit) \<times> event list" where
  "main w user_input submit =
     (if submit then
        (case Runner_run w triage_agent user_input of
           (Inl e, t) \<Rightarrow>
             (Inl e, [Spinner_enter ''Processing...'', Sleep 10, Spinner_exit] @ t)
         | (Inr result, t) \<Rightarrow>
             (Inr (),
              [Spinner_enter ''Processing...'', Sleep 10, Spinner_exit] @ t
                @ [Write_out (final_output result)]))
      else (Inr (), []))"

text \<open>
  The process-wide state the script writes at top level: the environment and the key
  the tracing exporter holds.
\<close>

record process =
  environ :: "string \<rightharpoonup> string"
  tracing_export_api_key :: "string option"

text \<open>
  \<^verbatim>\<open>st.sidebar.text_input(...)\<close> returns what the widget holds, the empty string as
  long as nothing has been entered.
\<close>

definition text_input :: "string option \<Rightarrow> string" where
  "text_input entered = (case entered of None \<Rightarrow> [] | Some v \<Rightarrow> v)"

definition getenv :: "process \<Rightarrow> string \<Rightarrow> string option" where
  "getenv p k = environ p k"

definition set_tracing_export_api_key :: "string option \<Rightarrow> process \<Rightarrow> process" where
  "set_tracing_export_api_key k p = p\<lparr>tracing_export_api_key := k\<rparr>"

text \<open>Lines 19, 20 and 65 of the script, which run on every execution of it.\<close>

definition configure_credentials :: "string option \<Rightarrow> process \<Rightarrow> process" where
  "configure_credentials entered p =
     (let openai_key = text_input entered;
          p1 = p\<lparr>environ := (environ p)(''OPENAI_API_KEY'' \<mapsto> openai_key)\<rparr>
      in set_tracing_export_api_key (getenv p1 ''OPENAI_API_KEY'') p1)"

definition script ::
  "string option \<Rightarrow> runtime \<Rightarrow> string \<Rightarrow> bool \<Rightarrow> process
     \<Rightarrow> ((run_error + unit) \<times> event list) \<times> process" where
  "script entered w user_input submit p =
     (let p' = configure_credentials entered p in (main w user_input submit, p'))"

subsection \<open>Reading a trace\<close>

text \<open>The agents the runtime invoked, by name and in order.\<close>

fun invoked :: "event list \<Rightarrow> string list" where
  "invoked [] = []"
| "invoked (Agent_invoked n q # t) = n # invoked t"
| "invoked (e # t) = invoked t"

text \<open>The specialists are the hand-off targets configured on the triage agent.\<close>

definition specialists_invoked :: "event list \<Rightarrow> string list" where
  "specialists_invoked t =
     filter (\<lambda>n. n \<in> set (map name (handoffs triage_agent))) (invoked t)"

text \<open>What \<^verbatim>\<open>st.write\<close> rendered, in order.\<close>

fun written :: "event list \<Rightarrow> run_output list" where
  "written [] = []"
| "written (Write_out v # t) = v # written t"
| "written (e # t) = written t"

text \<open>
  The calls of \<open>Runner.run\<close> in a trace, each with its agent, its input and whether the
  busy indicator is showing at the moment of the call. The first argument is whether
  the indicator shows at the start of the trace.
\<close>

fun runs_called :: "bool \<Rightarrow> event list \<Rightarrow> (string \<times> string \<times> bool) list" where
  "runs_called busy [] = []"
| "runs_called busy (Spinner_enter m # t) = runs_called True t"
| "runs_called busy (Spinner_exit # t) = runs_called False t"
| "runs_called busy (Run_called n q # t) = (n, q, busy) # runs_called busy t"
| "runs_called busy (e # t) = runs_called busy t"

text \<open>The calls of the route operation: the runs of the triage agent.\<close>

definition route_calls :: "event list \<Rightarrow> (string \<times> string \<times> bool) list" where
  "route_calls t = filter (\<lambda>c. fst c = name triage_agent) (runs_called False t)"

text \<open>The events of a trace up to, and without, the first call of \<open>Runner.run\<close>.\<close>

fun before_first_run :: "event list \<Rightarrow> event list" where
  "before_first_run [] = []"
| "before_first_run (Run_called n q # t) = []"
| "before_first_run (e # t) = e # before_first_run t"

text \<open>The durations of the sleeps in a trace, in order.\<close>

fun sleeps :: "event list \<Rightarrow> nat list" where
  "sleeps [] = []"
| "sleeps (Sleep n # t) = n # sleeps t"
| "sleeps (e # t) = sleeps t"

subsection \<open>A runtime to run the program on\<close>

text \<open>
  A runtime that takes every non-empty query for research, routes a query that mentions
  a bond to the second candidate and any other query to the first, and answers with the
  agent's name and the query.
\<close>

fun mentions_bond :: "string \<Rightarrow> bool" where
  "mentions_bond (a # b # c # d # r) =
     ((a = CHR ''b'' \<and> b = CHR ''o'' \<and> c = CHR ''n'' \<and> d = CHR ''d'')
      \<or> mentions_bond (b # c # d # r))"
| "mentions_bond r = False"

definition demo_runtime :: runtime where
  "demo_runtime =
     \<lparr>structured_reply = (\<lambda>n i q.
        \<lparr>is_research = (q \<noteq> []),
         reasoning = (if q = [] then ''The input is empty.'' else ''The user asks about research.'')\<rparr>),
      handoff_choice = (\<lambda>n i ds q. if mentions_bond q then 1 else 0),
      text_reply = (\<lambda>n i q. n @ '': '' @ q)\<rparr>"

text \<open>
  The same runtime but for the rationale of its verdicts: it rejects and accepts the
  same queries, routes and answers the same, and words every rationale differently.
\<close>

definition terse_runtime :: runtime where
  "terse_runtime =
     demo_runtime\<lparr>structured_reply := (\<lambda>n i q.
        \<lparr>is_research = (q \<noteq> []),
         reasoning = (if q = [] then ''Out of scope.'' else ''In scope.'')\<rparr>)\<rparr>"

section \<open>The Parquet summary tool (parquet_tools.py)\<close>

text \<open>
  The registered tool. \<open>read_parquet_summary\<close> is imported from \<open>utils.file_reader\<close>,
  which is not among the sources, so the tool takes it as a parameter; the state it
  reads and its result type are whatever the provider's are.
\<close>

definition summaries_parquet_file :: "(string \<Rightarrow> 's \<Rightarrow> 'r) \<Rightarrow> string \<Rightarrow> 's \<Rightarrow> 'r" where
  "summaries_parquet_file read_parquet_summary filename = read_parquet_summary filename"

subsection \<open>The File Summary Provider\<close>

datatype tool_error = FileNotFound | UnreadableFormat

text \<open>
  A file of the data directory: an instance of the columnar format, with the row count
  and the column names of its structural metadata, or any other content.
\<close>

datatype data_file = Columnar nat "string list" | Other_content string

fun is_columnar :: "data_file \<Rightarrow> bool" where
  "is_columnar (Columnar r cs) = True"
| "is_columnar (Other_content c) = False"

record FileSummary =
  row_count :: nat
  column_count :: nat
  source_filename :: string

text \<open>
  The data directory by file name, and the log of the files the provider opened (or
  tried to open).
\<close>

record data_dir =
  files :: "string \<rightharpoonup> data_file"
  opened :: "string list"

text \<open>
  Modelled from the spec: \<open>read_parquet_summary\<close> of \<open>utils/file_reader.py\<close>, which
  parquet_tools.py imports and which is not among the sources. The model follows the
  File Summary Provider (section 4.4): it opens the named file on every call, fails
  with \<open>FileNotFound\<close> when there is no such file and with \<open>UnreadableFormat\<close> when the
  file is not an instance of the columnar format, and otherwise reports the row and
  column counts of the file's metadata. It keeps nothing between calls.
\<close>

definition read_parquet_summary ::
  "string \<Rightarrow> data_dir \<Rightarrow> (tool_error + FileSummary) \<times> data_dir" where
  "read_parquet_summary filename d =
     ((case files d filename of
         None \<Rightarrow> Inl FileNotFound
       | Some (Other_content c) \<Rightarrow> Inl UnreadableFormat
       | Some (Columnar r cs) \<Rightarrow>
           Inr \<lparr>row_count = r, column_count = length cs, source_filename = filename\<rparr>),
      d\<lparr>opened := opened d @ [filename]\<rparr>)"

text \<open>The tool as deployed: the registered function over the provider.\<close>

definition summarize :: "string \<Rightarrow> data_dir \<Rightarrow> (tool_error + FileSummary) \<times> data_dir" where
  "summarize = summaries_parquet_file read_parquet_summary"

definition demo_dir :: data_dir where
  "demo_dir =
     \<lparr>files = [''sample.parquet'' \<mapsto> Columnar 5 [''id'', ''price'', ''qty''],
               ''notes.txt'' \<mapsto> Other_content ''hello''],
      opened = []\<rparr>"

section \<open>Properties of the front-end\<close>

subsection \<open>What the runs of the two configured entry points compute\<close>

lemma research_guardrail_eq:
  "research_guardrail w q =
     (Inr \<lparr>output_info = guardrail_verdict w q,
            tripwire_triggered = (\<not> is_research (guardrail_verdict w q))\<rparr>,
      [Run_called ''Guardrail Check'' q, Agent_invoked ''Guardrail Check'' q])"
  by (simp add: research_guardrail_def Runner_run_def run_turns_def answer_def
      final_output_as_def guardrail_agent_def guardrail_verdict_def)

lemma triage_fields:
  "name triage_agent = ''Triage Agent''"
  "handoffs triage_agent = [physics_research_agent, financial_research_agent]"
  "input_guardrails triage_agent = [InputGuardrail research_guardrail]"
  by (simp_all add: triage_agent_def)

lemma specialist_names:
  "name physics_research_agent = ''Physics Researcher''"
  "name financial_research_agent = ''Financial Researcher''"
  "output_type physics_research_agent = None"
  "output_type financial_research_agent = None"
  by (simp_all add: physics_research_agent_def financial_research_agent_def)

lemma nth_pair:
  "[a, b] ! (n mod length [a, b]) = a \<or> [a, b] ! (n mod length [a, b]) = b"
proof -
  define i where "i = n mod length [a, b]"
  have "i = 0 \<or> i = 1" unfolding i_def by (simp add: numeral_2_eq_2 [symmetric]) arith
  then have "[a, b] ! i = a \<or> [a, b] ! i = b" by auto
  then show ?thesis unfolding i_def .
qed

lemma chosen_handoff_triage:
  "chosen_handoff w triage_agent q = physics_research_agent
   \<or> chosen_handoff w triage_agent q = financial_research_agent"
  unfolding chosen_handoff_def triage_fields by (rule nth_pair)

lemma Runner_run_triage:
  "Runner_run w triage_agent q =
     (if is_research (guardrail_verdict w q)
      then (Inr (answer w (chosen_handoff w triage_agent q) q),
            [Run_called ''Triage Agent'' q, Run_called ''Guardrail Check'' q,
             Agent_invoked ''Guardrail Check'' q, Agent_invoked ''Triage Agent'' q,
             Agent_invoked (name (chosen_handoff w triage_agent q)) q])
      else (Inl (InputGuardrailTripwireTriggered
                  \<lparr>output_info = guardrail_verdict w q, tripwire_triggered = True\<rparr>),
            [Run_called ''Triage Agent'' q, Run_called ''Guardrail Check'' q,
             Agent_invoked ''Guardrail Check'' q]))"
  by (simp add: Runner_run_def triage_fields research_guardrail_eq run_turns_def)


lemma main_submit:
  "main w q True =
     (case Runner_run w triage_agent q of
        (Inl e, t) \<Rightarrow> (Inl e, [Spinner_enter ''Processing...'', Sleep 10, Spinner_exit] @ t)
      | (Inr result, t) \<Rightarrow>
          (Inr (), [Spinner_enter ''Processing...'', Sleep 10, Spinner_exit] @ t
                     @ [Write_out (final_output result)]))"
  by (simp add: main_def)

lemma main_trace:
  "snd (main w q True) =
     (if is_research (guardrail_verdict w q)
      then [Spinner_enter ''Processing...'', Sleep 10, Spinner_exit,
            Run_called ''Triage Agent'' q, Run_called ''Guardrail Check'' q,
            Agent_invoked ''Guardrail Check'' q, Agent_invoked ''Triage Agent'' q,
            Agent_invoked (name (chosen_handoff w triage_agent q)) q,
            Write_out (final_output (answer w (chosen_handoff w triage_agent q) q))]
      else [Spinner_enter ''Processing...'', Sleep 10, Spinner_exit,
            Run_called ''Triage Agent'' q, Run_called ''Guardrail Check'' q,
            Agent_invoked ''Guardrail Check'' q])"
  by (simp add: main_submit Runner_run_triage)

lemma main_outcome:
  "fst (main w q True) =
     (if is_research (guardrail_verdict w q) then Inr ()
      else Inl (InputGuardrailTripwireTriggered
                  \<lparr>output_info = guardrail_verdict w q, tripwire_triggered = True\<rparr>))"
  by (simp add: main_submit Runner_run_triage)

lemma specialist_filter:
  "specialists_invoked t =
     filter (\<lambda>n. n = ''Physics Researcher'' \<or> n = ''Financial Researcher'') (invoked t)"
  by (simp add: specialists_invoked_def triage_fields specialist_names)

lemma chosen_name:
  "name (chosen_handoff w triage_agent q) = ''Physics Researcher''
   \<or> name (chosen_handoff w triage_agent q) = ''Financial Researcher''"
  using chosen_handoff_triage [of w q] by (auto simp: specialist_names)

lemma answer_chosen:
  "final_output (answer w (chosen_handoff w triage_agent q) q) =
     Text (text_reply w (name (chosen_handoff w triage_agent q))
             (instructions (chosen_handoff w triage_agent q)) q)"
  using chosen_handoff_triage [of w q] by (auto simp: answer_def specialist_names)

subsection \<open>The guardrail gate\<close>

text \<open>
  Claim C1, as the claim states it, fails in its part on the rationale. On the empty
  query the example runtime's verdict is a rejection with the rationale
  \<open>The input is empty.\<close>, and \<open>main\<close> renders nothing at all; the runtime that words the
  rationale differently leaves exactly the same trace of the program, so nothing the
  program does shows the rationale.
\<close>

theorem rejection_rationale_not_rendered:
  "\<not> is_research (guardrail_verdict demo_runtime [])
   \<and> reasoning (guardrail_verdict demo_runtime []) = ''The input is empty.''
   \<and> reasoning (guardrail_verdict terse_runtime []) = ''Out of scope.''
   \<and> written (snd (main demo_runtime [] True)) = []
   \<and> snd (main terse_runtime [] True) = snd (main demo_runtime [] True)"
  by (simp add: main_trace guardrail_verdict_def terse_runtime_def demo_runtime_def)

text \<open>
  Claim C1, amended. Whenever the Guardrail Evaluator's verdict on a query has
  acceptance flag false, the guardrail function reports its tripwire, the run of the
  triage agent aborts with the tripwire exception, which carries the verdict (flag and
  rationale) unchanged, and no specialist is invoked. \<open>main\<close> has no handler: it ends
  with that exception and renders nothing, and its trace is the delay block, the two
  calls of the run and the invocation of the guardrail agent, the same whatever the
  rationale says. A run of the triage agent returns a result only for a query whose
  verdict has acceptance flag true.
\<close>

theorem rejected_query_aborts_before_any_specialist:
  "(\<not> is_research (guardrail_verdict w q) \<longrightarrow>
      fst (research_guardrail w q) =
        Inr \<lparr>output_info = guardrail_verdict w q, tripwire_triggered = True\<rparr>
      \<and> fst (Runner_run w triage_agent q) =
          Inl (InputGuardrailTripwireTriggered
                 \<lparr>output_info = guardrail_verdict w q, tripwire_triggered = True\<rparr>)
      \<and> specialists_invoked (snd (Runner_run w triage_agent q)) = []
      \<and> fst (main w q True) =
          Inl (InputGuardrailTripwireTriggered
                 \<lparr>output_info = guardrail_verdict w q, tripwire_triggered = True\<rparr>)
      \<and> specialists_invoked (snd (main w q True)) = []
      \<and> written (snd (main w q True)) = []
      \<and> snd (main w q True) =
          [Spinner_enter ''Processing...'', Sleep 10, Spinner_exit,
           Run_called ''Triage Agent'' q, Run_called ''Guardrail Check'' q,
           Agent_invoked ''Guardrail Check'' q])
   \<and> (\<forall>r. fst (Runner_run w triage_agent q) = Inr r \<longrightarrow> is_research (guardrail_verdict w q))"
  by (simp add: research_guardrail_eq Runner_run_triage main_trace main_outcome specialist_filter)

text \<open>
  The theorem at the empty query, which the example runtime rejects, and at a query it
  accepts.
\<close>

theorem rejected_query_aborts_before_any_specialist_witness:
  "\<not> is_research (guardrail_verdict demo_runtime [])
   \<and> fst (Runner_run demo_runtime triage_agent []) =
       Inl (InputGuardrailTripwireTriggered
              \<lparr>output_info = \<lparr>is_research = False, reasoning = ''The input is empty.''\<rparr>,
               tripwire_triggered = True\<rparr>)
   \<and> specialists_invoked (snd (main demo_runtime [] True)) = []
   \<and> written (snd (main demo_runtime [] True)) = []
   \<and> fst (Runner_run demo_runtime triage_agent ''What is dark matter?'') =
       Inr \<lparr>final_output = Text ''Physics Researcher: What is dark matter?'',
            last_agent = ''Physics Researcher''\<rparr>
   \<and> is_research (guardrail_verdict demo_runtime ''What is dark matter?'')"
proof -
  have rej: "\<not> is_research (guardrail_verdict demo_runtime [])"
    by (simp add: guardrail_verdict_def demo_runtime_def)
  have v: "guardrail_verdict demo_runtime [] =
             \<lparr>is_research = False, reasoning = ''The input is empty.''\<rparr>"
    by (simp add: guardrail_verdict_def demo_runtime_def)
  have acc: "fst (Runner_run demo_runtime triage_agent ''What is dark matter?'') =
       Inr \<lparr>final_output = Text ''Physics Researcher: What is dark matter?'',
            last_agent = ''Physics Researcher''\<rparr>"
    by (simp add: Runner_run_triage guardrail_verdict_def demo_runtime_def chosen_handoff_def
        triage_fields answer_def specialist_names)
  from rejected_query_aborts_before_any_specialist [of demo_runtime "[]"] rej v
  have "fst (Runner_run demo_runtime triage_agent []) =
       Inl (InputGuardrailTripwireTriggered
              \<lparr>output_info = \<lparr>is_research = False, reasoning = ''The input is empty.''\<rparr>,
               tripwire_triggered = True\<rparr>)
   \<and> specialists_invoked (snd (main demo_runtime [] True)) = []
   \<and> written (snd (main demo_runtime [] True)) = []" by (simp add: specialist_filter)
  moreover from rejected_query_aborts_before_any_specialist [of demo_runtime "''What is dark matter?''"] acc
  have "is_research (guardrail_verdict demo_runtime ''What is dark matter?'')" by blast
  ultimately show ?thesis using rej acc by simp
qed

subsection \<open>Dispatch to one specialist\<close>

text \<open>
  Claim C4. Whenever the verdict on a query has acceptance flag true, the triage agent
  has two candidates with different names, the runtime's choice is one of them, that
  one is the only specialist invoked, and what \<open>main\<close> renders is exactly the text that
  agent answered with.
\<close>

theorem accepted_query_one_specialist_rendered:
  "is_research (guardrail_verdict w q) \<Longrightarrow>
     length (handoffs triage_agent) = 2
     \<and> distinct (map name (handoffs triage_agent))
     \<and> chosen_handoff w triage_agent q \<in> set (handoffs triage_agent)
     \<and> specialists_invoked (snd (main w q True)) = [name (chosen_handoff w triage_agent q)]
     \<and> fst (main w q True) = Inr ()
     \<and> written (snd (main w q True)) =
         [Text (text_reply w (name (chosen_handoff w triage_agent q))
                  (instructions (chosen_handoff w triage_agent q)) q)]"
  using chosen_handoff_triage [of w q] chosen_name [of w q]
  by (auto simp: main_trace main_outcome specialist_filter answer_chosen triage_fields
      specialist_names)

text \<open>The theorem at a query the example runtime accepts and routes to the second candidate.\<close>

theorem accepted_query_one_specialist_rendered_witness:
  "is_research (guardrail_verdict demo_runtime ''price a bond'')
   \<and> specialists_invoked (snd (main demo_runtime ''price a bond'' True)) =
       [''Financial Researcher'']
   \<and> written (snd (main demo_runtime ''price a bond'' True)) =
       [Text ''Financial Researcher: price a bond'']"
proof -
  have acc: "is_research (guardrail_verdict demo_runtime ''price a bond'')"
    by (simp add: guardrail_verdict_def demo_runtime_def)
  have ch: "chosen_handoff demo_runtime triage_agent ''price a bond'' = financial_research_agent"
    by (simp add: chosen_handoff_def triage_fields demo_runtime_def)
  have tr: "text_reply demo_runtime n i q = n @ '': '' @ q" for n i q
    by (simp add: demo_runtime_def)
  from accepted_query_one_specialist_rendered [OF acc] show ?thesis
    using acc by (simp add: ch tr specialist_names)
qed

subsection \<open>One submit, one route call\<close>

text \<open>
  Claim C5, as the claim states it, fails: on a submitted query that the example
  runtime accepts, the one call of the route operation is made while the busy indicator
  is not showing (the \<^verbatim>\<open>with st.spinner\<close> block has been left before the call); and
  on the empty query, which the example runtime rejects, the run aborts and \<open>main\<close>
  ends with the exception, having rendered nothing.
\<close>

theorem route_call_outside_busy_indicator:
  "route_calls (snd (main demo_runtime ''What is dark matter?'' True)) =
     [(''Triage Agent'', ''What is dark matter?'', False)]
   \<and> fst (main demo_runtime [] True) =
       Inl (InputGuardrailTripwireTriggered
              \<lparr>output_info = \<lparr>is_research = False, reasoning = ''The input is empty.''\<rparr>,
               tripwire_triggered = True\<rparr>)
   \<and> written (snd (main demo_runtime [] True)) = []"
  by (simp add: route_calls_def main_trace main_outcome triage_fields guardrail_verdict_def
      demo_runtime_def)

text \<open>
  Claim C5, amended. Without a submit nothing is called or rendered. On every submit
  exactly one call of the route operation is made, on the submitted query, and the
  script waits for it: the trace is the delay block, then the events of that run, then
  what \<open>main\<close> renders, and the run itself renders nothing. When the run returns a
  result, \<open>main\<close> renders exactly its final output; when it aborts, the exception
  leaves \<open>main\<close> and \<open>main\<close> renders nothing.
\<close>

theorem submit_calls_route_once_then_renders:
  "main w q False = (Inr (), [])
   \<and> map (\<lambda>c. (fst c, fst (snd c))) (route_calls (snd (main w q True))) =
       [(name triage_agent, q)]
   \<and> snd (main w q True) =
       [Spinner_enter ''Processing...'', Sleep 10, Spinner_exit]
         @ snd (Runner_run w triage_agent q) @ map Write_out (written (snd (main w q True)))
   \<and> written (snd (Runner_run w triage_agent q)) = []
   \<and> written (snd (main w q True)) =
       (case fst (Runner_run w triage_agent q) of Inl e \<Rightarrow> [] | Inr r \<Rightarrow> [final_output r])
   \<and> fst (main w q True) =
       (case fst (Runner_run w triage_agent q) of Inl e \<Rightarrow> Inl e | Inr r \<Rightarrow> Inr ())"
  by (simp add: main_def route_calls_def main_trace main_outcome triage_fields Runner_run_triage)

subsection \<open>The empty query\<close>

text \<open>
  Claim C7. A submitted empty query is passed on like any other: after the delay block
  and the call of the run, the trace continues with the events of the guardrail
  function on the empty input, in which the guardrail agent is the one agent invoked;
  the guardrail function returns the evaluator's verdict on the empty input, and the
  outcome of \<open>main\<close> is a function of that verdict alone.
\<close>

theorem empty_query_reaches_guardrail:
  "fst (research_guardrail w []) =
     Inr \<lparr>output_info = guardrail_verdict w [],
          tripwire_triggered = (\<not> is_research (guardrail_verdict w []))\<rparr>
   \<and> invoked (snd (research_guardrail w [])) = [name guardrail_agent]
   \<and> (\<exists>rest. snd (main w [] True) =
         [Spinner_enter ''Processing...'', Sleep 10, Spinner_exit,
          Run_called (name triage_agent) []] @ snd (research_guardrail w []) @ rest)
   \<and> fst (main w [] True) =
       (if is_research (guardrail_verdict w []) then Inr ()
        else Inl (InputGuardrailTripwireTriggered
                    \<lparr>output_info = guardrail_verdict w [], tripwire_triggered = True\<rparr>))"
  by (simp add: research_guardrail_eq main_trace main_outcome triage_fields guardrail_agent_def)

subsection \<open>The delay\<close>

text \<open>
  Claim C8. On every submit, whatever the runtime and the query, everything that
  happens before the first call of \<open>Runner.run\<close> is the busy indicator opening, a sleep
  of the constant 10 and the indicator closing; it is the only sleep of the run, no
  agent is invoked during it, and the calls of the runtime (the run of the triage
  agent, then the guardrail's) follow it.
\<close>

theorem fixed_delay_precedes_runtime_call:
  "before_first_run (snd (main w q True)) =
     [Spinner_enter ''Processing...'', Sleep 10, Spinner_exit]
   \<and> sleeps (snd (main w q True)) = [10]
   \<and> map fst (runs_called False (snd (main w q True))) =
       [name triage_agent, name guardrail_agent]
   \<and> invoked (before_first_run (snd (main w q True))) = []
   \<and> invoked (snd (main w q True)) \<noteq> []"
  by (simp add: main_trace triage_fields guardrail_agent_def)

subsection \<open>The credential\<close>

text \<open>
  Claim C10. Every run of the script, submitted or not, leaves the environment equal
  to the one it started from with \<open>OPENAI_API_KEY\<close> overwritten by what the credential
  input holds, and sets the tracing export key to that same value; as long as nothing
  has been entered, both are the empty string.
\<close>

theorem credential_overwrites_environment_on_every_run:
  "environ (snd (script entered w q submit p)) =
     (environ p)(''OPENAI_API_KEY'' \<mapsto> text_input entered)
   \<and> getenv (snd (script entered w q submit p)) ''OPENAI_API_KEY'' = Some (text_input entered)
   \<and> tracing_export_api_key (snd (script entered w q submit p)) = Some (text_input entered)
   \<and> text_input None = []
   \<and> getenv (snd (script None w q submit p)) ''OPENAI_API_KEY'' = Some []
   \<and> tracing_export_api_key (snd (script None w q submit p)) = Some []"
  by (simp add: script_def configure_credentials_def set_tracing_export_api_key_def getenv_def
      text_input_def Let_def)

section \<open>Properties of the Parquet summary tool\<close>

text \<open>
  Claim C9. The registered tool returns what the provider returns on the same file
  name, for every provider, every state the provider reads and every result type, so
  for results, errors and state changes alike; the deployed tool is the provider.
\<close>

theorem tool_is_pass_through:
  "summaries_parquet_file provider filename s = provider filename s
   \<and> summarize filename d = read_parquet_summary filename d"
  by (simp add: summaries_parquet_file_def summarize_def)

text \<open>
  Claim C3. On a file name that names no file the tool's result is the error
  \<open>FileNotFound\<close>, and on an existing file that is not an instance of the columnar
  format it is the error \<open>UnreadableFormat\<close>; either is a returned value of the call.
\<close>

theorem missing_or_malformed_file_is_error_result:
  "(files d filename = None \<longrightarrow> fst (summarize filename d) = Inl FileNotFound)
   \<and> (\<forall>f. files d filename = Some f \<and> \<not> is_columnar f \<longrightarrow>
         fst (summarize filename d) = Inl UnreadableFormat)"
proof -
  have "fst (summarize filename d) = Inl UnreadableFormat"
    if "files d filename = Some f" "\<not> is_columnar f" for f
    using that
    by (cases f) (simp_all add: summarize_def summaries_parquet_file_def read_parquet_summary_def)
  then show ?thesis
    by (auto simp: summarize_def summaries_parquet_file_def read_parquet_summary_def)
qed

text \<open>The theorem on the example directory: a missing file and a text file.\<close>

theorem missing_or_malformed_file_is_error_result_witness:
  "files demo_dir ''missing.parquet'' = None
   \<and> fst (summarize ''missing.parquet'' demo_dir) = Inl FileNotFound
   \<and> files demo_dir ''notes.txt'' = Some (Other_content ''hello'')
   \<and> \<not> is_columnar (Other_content ''hello'')
   \<and> fst (summarize ''notes.txt'' demo_dir) = Inl UnreadableFormat"
proof -
  have a: "files demo_dir ''missing.parquet'' = None"
    by (simp add: demo_dir_def)
  have b: "files demo_dir ''notes.txt'' = Some (Other_content ''hello'')"
    by (simp add: demo_dir_def)
  have c: "\<not> is_columnar (Other_content ''hello'')"
    by simp
  from missing_or_malformed_file_is_error_result [of demo_dir "''missing.parquet''"] a
  have "fst (summarize ''missing.parquet'' demo_dir) = Inl FileNotFound"
    by blast
  moreover
  from missing_or_malformed_file_is_error_result [of demo_dir "''notes.txt''"] b c
  have "fst (summarize ''notes.txt'' demo_dir) = Inl UnreadableFormat"
    by blast
  ultimately show ?thesis
    using a b c by simp
qed

text \<open>
  Claim C6. A second call on the same file name, on the directory the first call left,
  returns the same result as the first (so the same row and column counts); a call
  leaves the files as they were; each of the two calls opened the file; and a call made
  after the file has been replaced reports the new file, whatever an earlier call saw.
\<close>

theorem summarize_idempotent_and_uncached:
  "fst (summarize filename (snd (summarize filename d))) = fst (summarize filename d)
   \<and> files (snd (summarize filename d)) = files d
   \<and> opened (snd (summarize filename (snd (summarize filename d)))) =
       opened d @ [filename, filename]
   \<and> fst (summarize filename
            ((snd (summarize filename d))\<lparr>files := (files d)(filename \<mapsto> f)\<rparr>)) =
       fst (summarize filename (d\<lparr>files := (files d)(filename \<mapsto> f)\<rparr>))"
  by (simp add: summarize_def summaries_parquet_file_def read_parquet_summary_def)

end
